theory Spec2Isabelle
  imports Complex_Main "HOL-Library.AList" "HOL-Library.Log_Nat"
begin

section \<open>The OTP backend of InnerLight\<close>

text \<open>
  The backend part of \<^verbatim>\<open>src/services/otpService.ts\<close> (the Express server): the
  process-wide \<^verbatim>\<open>otpStorage\<close> map, \<^verbatim>\<open>generateOTP\<close>, the handlers of
  \<^verbatim>\<open>POST /api/send-otp\<close> and \<^verbatim>\<open>POST /api/verify-otp\<close>, and the \<^verbatim>\<open>setInterval\<close>
  callback that removes expired entries.

  Conventions of the embedding:
  \<^item> \<^verbatim>\<open>Date.now()\<close> is a parameter \<open>now :: int\<close> (milliseconds);
  \<^item> \<^verbatim>\<open>Math.random()\<close> is a parameter \<open>rnd :: real\<close>, the value of the double it
    returns; the product and the sum in \<^verbatim>\<open>generateOTP\<close> are rounded as binary64
    arithmetic rounds them (to nearest, ties to even);
  \<^item> \<^verbatim>\<open>process.env\<close> is a record of the two variables that are read;
  \<^item> the outbound \<^verbatim>\<open>axios.post\<close> is a parameter: a function from the request that is
    sent to the outcome of the call (resolved with a body, or rejected);
  \<^item> a field of a JSON request body is a \<open>string option\<close>: \<open>None\<close> when the field
    is absent, as the client's types (\<^verbatim>\<open>phone: string\<close>, \<^verbatim>\<open>otp: string\<close>) have it;
  \<^item> a handler returns the response it sends and the storage it leaves behind;
    \<^verbatim>\<open>console.log\<close> output is not modelled.
\<close>

subsection \<open>Storage\<close>

record entry =
  otp :: string
  expiresAt :: int

text \<open>
  A JavaScript \<^verbatim>\<open>Map\<close> keeps its entries in insertion order: \<^verbatim>\<open>set\<close> on a present
  key replaces the value in place, on a new key it appends; \<^verbatim>\<open>delete\<close> removes the
  key. That is \<^const>\<open>AList.update\<close> and \<^const>\<open>AList.delete\<close> on an association
  list, with \<^const>\<open>map_of\<close> for \<^verbatim>\<open>get\<close>.
\<close>

type_synonym otpStorage = "(string \<times> entry) list"

subsection \<open>Numbers\<close>

text \<open>
  A JavaScript number is an IEEE 754 binary64 value; the finite ones are modelled by the
  reals they stand for. An arithmetic operation returns the exact result rounded to the
  nearest binary64 value, a tie going to the one with an even significand. Overflow to
  infinity is not modelled (nothing here exceeds \<open>2^20\<close>).

  \<open>round_even\<close> rounds a real to the nearest integer, ties to even.
  \<open>ulp x\<close> is the spacing of the binary64 values around \<open>x\<close>: \<open>2^(e - 52)\<close> when
  \<open>2^e \<le> \<bar>x\<bar> < 2^(e + 1)\<close>, and \<open>2^-1074\<close> for the subnormal \<open>\<bar>x\<bar> < 2^-1022\<close>; it
  is computed from the bit length of \<open>\<lfloor>\<bar>x\<bar> * 2^1074\<rfloor>\<close>.
\<close>

definition round_even :: "real \<Rightarrow> int" where
  "round_even t =
     (let f = \<lfloor>t\<rfloor>; d = t - of_int f
      in if d < 1 / 2 then f else if 1 / 2 < d then f + 1 else if even f then f else f + 1)"

definition denormal_exponent :: nat where
  "denormal_exponent = 1074"

definition ulp :: "real \<Rightarrow> real" where
  "ulp x = 2 ^ nat (max (bitlen \<lfloor>\<bar>x\<bar> * 2 ^ denormal_exponent\<rfloor> - 53) 0) / 2 ^ denormal_exponent"

definition binary64_round :: "real \<Rightarrow> real" where
  "binary64_round x = of_int (round_even (x / ulp x)) * ulp x"

definition is_binary64 :: "real \<Rightarrow> bool" where
  "is_binary64 x \<longleftrightarrow> binary64_round x = x"

text \<open>\<^verbatim>\<open>a * b\<close> and \<^verbatim>\<open>a + b\<close> on numbers.\<close>

definition js_mult :: "real \<Rightarrow> real \<Rightarrow> real" where
  "js_mult a b = binary64_round (a * b)"

definition js_add :: "real \<Rightarrow> real \<Rightarrow> real" where
  "js_add a b = binary64_round (a + b)"

subsection \<open>Decimal strings\<close>

definition digit_char :: "nat \<Rightarrow> char" where
  "digit_char d = char_of (48 + d)"

definition is_digit :: "char \<Rightarrow> bool" where
  "is_digit c \<longleftrightarrow> 48 \<le> (of_char c :: nat) \<and> (of_char c :: nat) \<le> 57"

text \<open>\<^verbatim>\<open>Number.prototype.toString()\<close> on a non-negative integer below \<open>10^21\<close>: the
  decimal digits, most significant first, no padding.\<close>

fun toString :: "nat \<Rightarrow> string" where
  "toString n = (if n < 10 then [digit_char n] else toString (n div 10) @ [digit_char (n mod 10)])"

subsection \<open>The generator\<close>

text \<open>\<^verbatim>\<open>generateOTP\<close>: \<^verbatim>\<open>Math.floor(100000 + Math.random() * 900000).toString()\<close>.
  The two literals are binary64 values, \<^verbatim>\<open>Math.floor\<close> is exact.\<close>

definition otp_number :: "real \<Rightarrow> int" where
  "otp_number rnd = \<lfloor>js_add 100000 (js_mult rnd 900000)\<rfloor>"

definition generateOTP :: "real \<Rightarrow> string" where
  "generateOTP rnd = toString (nat (otp_number rnd))"



subsection \<open>Environment, transport and responses\<close>

record environment =
  FAST2SMS_API_KEY :: "string option"
  NODE_ENV :: "string option"

text \<open>The body and header that \<^verbatim>\<open>axios.post\<close> sends to the provider (the constant
  fields \<^verbatim>\<open>route\<close>, \<^verbatim>\<open>sender_id\<close> and \<^verbatim>\<open>language\<close> are left out).\<close>

record sms_request =
  authorization :: "string option"
  sms_message :: string
  numbers :: string

text \<open>
  The call either resolves, and then \<open>Resolved b d\<close> holds whether
  \<^verbatim>\<open>response.data.return === true\<close> and the body \<^verbatim>\<open>response.data\<close>; or it rejects (also
  when reading the response throws), and then \<open>Rejected rd m\<close> holds
  \<^verbatim>\<open>smsError.response?.data\<close> and \<^verbatim>\<open>smsError.message\<close>.
\<close>

datatype sms_outcome =
  Resolved bool string
| Rejected "string option" string

record response =
  status :: nat
  success :: bool
  message :: string
  debug :: "string option"
  error :: "string option"
  verified :: "bool option"

text \<open>\<^verbatim>\<open>!x\<close> on a request field or environment variable that is a string when present:
  true for \<^verbatim>\<open>undefined\<close> and for the empty string.\<close>

definition falsy :: "string option \<Rightarrow> bool" where
  "falsy x \<longleftrightarrow> (case x of None \<Rightarrow> True | Some s \<Rightarrow> s = [])"

text \<open>\<^verbatim>\<open>/^\d{10}$/.test(phone)\<close>: exactly ten characters, each of \<^verbatim>\<open>0\<close>..\<^verbatim>\<open>9\<close>.\<close>

definition valid_phone :: "string \<Rightarrow> bool" where
  "valid_phone phone \<longleftrightarrow> length phone = 10 \<and> list_all is_digit phone"

text \<open>\<^verbatim>\<open>res.status(c).json({success: false, message: m})\<close> and
  \<^verbatim>\<open>res.json({success: true, message: m, debug: d})\<close>.\<close>

definition failure :: "nat \<Rightarrow> string \<Rightarrow> string option \<Rightarrow> response" where
  "failure c m e =
     \<lparr>status = c, success = False, message = m, debug = None, error = e, verified = None\<rparr>"

definition sent :: "string \<Rightarrow> string option \<Rightarrow> response" where
  "sent m d =
     \<lparr>status = 200, success = True, message = m, debug = d, error = None, verified = None\<rparr>"

text \<open>\<^verbatim>\<open>smsError.response?.data || smsError.message\<close>.\<close>

definition error_detail :: "string option \<Rightarrow> string \<Rightarrow> string" where
  "error_detail rd m = (case rd of None \<Rightarrow> m | Some d \<Rightarrow> if d = [] then m else d)"

subsection \<open>\<^verbatim>\<open>POST /api/send-otp\<close>\<close>

text \<open>What the handler hands to \<^verbatim>\<open>axios.post\<close>: the key as the
  \<^verbatim>\<open>authorization\<close> header, the text with the code, the phone as \<^verbatim>\<open>numbers\<close>.\<close>

definition provider_request :: "string option \<Rightarrow> string \<Rightarrow> string \<Rightarrow> sms_request" where
  "provider_request apiKey phone code =
     \<lparr>authorization = apiKey,
      sms_message = ''Your InnerLight OTP is '' @ code
        @ ''. Valid for 5 minutes. Do not share with anyone.'',
      numbers = phone\<rparr>"

definition send_otp ::
  "environment \<Rightarrow> int \<Rightarrow> real \<Rightarrow> (sms_request \<Rightarrow> sms_outcome) \<Rightarrow> otpStorage \<Rightarrow> string option
     \<Rightarrow> response \<times> otpStorage" where
  "send_otp env now rnd post store phone_field =
     (if falsy phone_field then (failure 400 ''Phone number is required'' None, store)
      else
        let phone = the phone_field in
        if \<not> valid_phone phone
        then (failure 400 ''Invalid phone number. Must be 10 digits.'' None, store)
        else
          let code = generateOTP rnd;
              store' = AList.update phone \<lparr>otp = code, expiresAt = now + 5 * 60 * 1000\<rparr> store;
              apiKey = FAST2SMS_API_KEY env;
              isDev = (NODE_ENV env \<noteq> Some ''production'');
              isPlaceholderKey = falsy apiKey
          in
            if isDev \<and> isPlaceholderKey
            then (sent ''OTP sent successfully (Dev Mode)'' (Some code), store')
            else
              (case post (provider_request apiKey phone code) of
                 Resolved return_true data \<Rightarrow>
                   if return_true
                   then (sent ''OTP sent successfully'' (if isDev then Some code else None), store')
                   else if NODE_ENV env \<noteq> Some ''production''
                   then (sent ''OTP sent (Dev Fallback - Check Console)'' (Some code), store')
                   else (failure 500 ''Failed to send OTP via SMS Provider'' (Some data), store')
               | Rejected response_data err_message \<Rightarrow>
                   if NODE_ENV env \<noteq> Some ''production''
                   then (sent ''OTP sent (Dev Fallback - Check Console)'' (Some code), store')
                   else (failure 500 ''Failed to send OTP via SMS service''
                           (Some (error_detail response_data err_message)), store')))"

subsection \<open>\<^verbatim>\<open>POST /api/verify-otp\<close>\<close>

text \<open>The four client errors and the success of the handler, by the message each sends.\<close>

definition required_response :: response where
  "required_response = failure 400 ''Phone number and OTP are required'' None"

definition not_found_response :: response where
  "not_found_response =
     failure 400 ''No OTP found for this phone number. Please request a new OTP.'' None"

definition expired_response :: response where
  "expired_response = failure 400 ''OTP has expired. Please request a new one.'' None"

definition mismatch_response :: response where
  "mismatch_response = failure 400 ''Invalid OTP. Please try again.'' None"

definition verified_response :: response where
  "verified_response =
     \<lparr>status = 200, success = True, message = ''OTP verified successfully'',
      debug = None, error = None, verified = Some True\<rparr>"

definition verify_otp ::
  "int \<Rightarrow> otpStorage \<Rightarrow> string option \<Rightarrow> string option \<Rightarrow> response \<times> otpStorage" where
  "verify_otp now store phone_field otp_field =
     (if falsy phone_field \<or> falsy otp_field then (required_response, store)
      else
        let phone = the phone_field; submitted = the otp_field in
        case map_of store phone of
          None \<Rightarrow> (not_found_response, store)
        | Some storedData \<Rightarrow>
            if now > expiresAt storedData
            then (expired_response, AList.delete phone store)
            else if otp storedData = submitted
            then (verified_response, AList.delete phone store)
            else (mismatch_response, store))"

subsection \<open>The periodic cleanup\<close>

text \<open>
  \<^verbatim>\<open>for (const [phone, data] of otpStorage.entries()) if (now > data.expiresAt)
  otpStorage.delete(phone)\<close>. Deleting the entry the iterator stands on does not disturb
  the iteration over the later ones, so the loop runs over the entries as they were when
  it started and deletes from the live storage.
\<close>

fun cleanup_loop :: "int \<Rightarrow> (string \<times> entry) list \<Rightarrow> otpStorage \<Rightarrow> otpStorage" where
  "cleanup_loop now [] store = store"
| "cleanup_loop now ((phone, data) # rest) store =
     cleanup_loop now rest (if now > expiresAt data then AList.delete phone store else store)"

definition cleanup :: "int \<Rightarrow> otpStorage \<Rightarrow> otpStorage" where
  "cleanup now store = cleanup_loop now store store"

text \<open>The period given to \<^verbatim>\<open>setInterval\<close>, in milliseconds.\<close>

definition cleanup_interval :: int where
  "cleanup_interval = 60 * 1000"

section \<open>Properties\<close>

subsection \<open>Decimal rendering\<close>

declare toString.simps [simp del]

lemma toString_small: "n < 10 \<Longrightarrow> toString n = [digit_char n]"
  by (subst toString.simps) simp

lemma toString_large: "10 \<le> n \<Longrightarrow> toString n = toString (n div 10) @ [digit_char (n mod 10)]"
  by (subst toString.simps) simp

lemma toString_nonempty: "toString n \<noteq> []"
  by (cases "n < 10") (simp_all add: toString_small toString_large)







lemma of_char_digit_char: "d < 10 \<Longrightarrow> of_char (digit_char d) = 48 + d"
  by (simp add: digit_char_def)

lemma toString_no_leading_zero: "0 < n \<Longrightarrow> hd (toString n) \<noteq> CHR ''0''"
proof (induction n rule: toString.induct)
  case (1 n)
  show ?case
  proof (cases "n < 10")
    case True
    have "digit_char n \<noteq> CHR ''0''"
    proof
      assume "digit_char n = CHR ''0''"
      then have "(of_char (digit_char n) :: nat) = of_char (CHR ''0'')" by simp
      with True "1.prems" show False by (simp add: of_char_digit_char)
    qed
    with True show ?thesis by (simp add: toString_small)
  next
    case False
    then have "0 < n div 10" by simp
    with False "1.IH" have "hd (toString (n div 10)) \<noteq> CHR ''0''" by simp
    with False show ?thesis by (simp add: toString_large toString_nonempty)
  qed
qed

lemma digit_char_numerals:
  "digit_char 0 = CHR ''0''" "digit_char 1 = CHR ''1''" "digit_char 2 = CHR ''2''"
  "digit_char 3 = CHR ''3''" "digit_char 4 = CHR ''4''" "digit_char 5 = CHR ''5''"
  "digit_char 6 = CHR ''6''" "digit_char 7 = CHR ''7''" "digit_char 8 = CHR ''8''"
  "digit_char 9 = CHR ''9''"
  by code_simp+

lemma digit_char_Suc_0: "digit_char (Suc 0) = CHR ''1''"
  by code_simp

lemma toString_550000: "toString 550000 = ''550000''"
  by (simp add: toString_small toString_large digit_char_numerals)

lemma toString_100000: "toString 100000 = ''100000''"
  by (simp add: toString_small toString_large digit_char_numerals digit_char_Suc_0)

subsection \<open>Binary64 rounding\<close>

lemma round_even_bounds: "\<lfloor>t\<rfloor> \<le> round_even t \<and> round_even t \<le> \<lfloor>t\<rfloor> + 1"
  by (simp add: round_even_def Let_def)

lemma round_even_of_int: "round_even (of_int i) = i"
  by (simp add: round_even_def)

lemma round_even_ge: "of_int i \<le> t \<Longrightarrow> i \<le> round_even t"
proof -
  assume "of_int i \<le> t"
  then have "i \<le> \<lfloor>t\<rfloor>" by (simp add: le_floor_iff)
  with round_even_bounds [of t] show ?thesis by linarith
qed

lemma round_even_le: "t \<le> of_int i \<Longrightarrow> round_even t \<le> i"
proof -
  assume t: "t \<le> of_int i"
  show ?thesis
  proof (cases "t = of_int i")
    case True
    then show ?thesis by (simp add: round_even_of_int)
  next
    case False
    with t have "t < of_int i" by simp
    then have "\<lfloor>t\<rfloor> < i" by (simp add: floor_less_iff)
    with round_even_bounds [of t] show ?thesis by linarith
  qed
qed

lemma round_even_below_half: "t < of_int i + 1 / 2 \<Longrightarrow> round_even t \<le> i"
proof -
  assume t: "t < of_int i + 1 / 2"
  show ?thesis
  proof (cases "t < of_int i")
    case True
    then show ?thesis by (intro round_even_le) simp
  next
    case False
    with t have "\<lfloor>t\<rfloor> = i" by (simp add: floor_eq_iff)
    with t show ?thesis by (simp add: round_even_def Let_def)
  qed
qed

lemma ulp_pos: "0 < ulp x"
  by (simp add: ulp_def)

lemma ulp_normal:
  assumes "52 \<le> n" and "2 ^ n \<le> \<bar>x\<bar> * 2 ^ denormal_exponent"
    and "\<bar>x\<bar> * 2 ^ denormal_exponent < 2 ^ Suc n"
  shows "ulp x = 2 ^ (n - 52) / 2 ^ denormal_exponent"
proof -
  let ?N = "\<lfloor>\<bar>x\<bar> * 2 ^ denormal_exponent\<rfloor>"
  have lo: "2 ^ n \<le> ?N"
  proof -
    have "(of_int (2 ^ n) :: real) \<le> \<bar>x\<bar> * 2 ^ denormal_exponent" using assms(2) by simp
    then show ?thesis by (simp only: le_floor_iff)
  qed
  have hi: "?N < 2 ^ Suc n"
  proof -
    have "\<bar>x\<bar> * 2 ^ denormal_exponent < (of_int (2 ^ Suc n) :: real)" using assms(3) by simp
    then show ?thesis by (simp only: floor_less_iff)
  qed
  have "0 \<le> int (Suc n) \<and> ?N < 2 ^ nat (int (Suc n))" using hi by (simp only: nat_int) simp
  then have "bitlen ?N \<le> int (Suc n)" by (simp only: bitlen_le_iff_power)
  moreover have "int (Suc n) \<le> 0 \<or> 2 ^ (nat (int (Suc n)) - 1) \<le> ?N"
    using lo by (simp only: nat_int diff_Suc_1) simp
  then have "int (Suc n) \<le> bitlen ?N" by (simp only: bitlen_ge_iff_power)
  ultimately have "bitlen ?N = int n + 1" by simp
  with assms(1) have "nat (max (bitlen ?N - 53) 0) = n - 52" by simp
  then show ?thesis by (simp only: ulp_def)
qed

lemma ulp_upper:
  assumes "52 \<le> n" and "\<bar>x\<bar> * 2 ^ denormal_exponent < 2 ^ Suc n"
  shows "\<exists>j. j \<le> n - 52 \<and> ulp x = 2 ^ j / 2 ^ denormal_exponent"
proof -
  let ?N = "\<lfloor>\<bar>x\<bar> * 2 ^ denormal_exponent\<rfloor>"
  have hi: "?N < 2 ^ Suc n"
  proof -
    have "\<bar>x\<bar> * 2 ^ denormal_exponent < (of_int (2 ^ Suc n) :: real)" using assms(2) by simp
    then show ?thesis by (simp only: floor_less_iff)
  qed
  have "0 \<le> int (Suc n) \<and> ?N < 2 ^ nat (int (Suc n))" using hi by (simp only: nat_int) simp
  then have "bitlen ?N \<le> int (Suc n)" by (simp only: bitlen_le_iff_power)
  with assms(1) have "nat (max (bitlen ?N - 53) 0) \<le> n - 52" by simp
  then show ?thesis unfolding ulp_def by blast
qed

lemma power_quotient: "j \<le> E \<Longrightarrow> (2::real) ^ (E - j) / 2 ^ E = 1 / 2 ^ j"
  by (simp add: power_diff)

lemma ulp_divides:
  assumes "\<bar>x\<bar> < 2 ^ 20"
  shows "\<exists>j. ulp x * 2 ^ j = 1 / 2 ^ 33"
proof -
  let ?E = denormal_exponent
  have E: "?E = 1074" by (simp add: denormal_exponent_def)
  have "\<bar>x\<bar> * 2 ^ ?E < 2 ^ 20 * 2 ^ ?E" using assms by simp
  also have "\<dots> = 2 ^ Suc (?E + 19)" by (simp add: power_add)
  finally have "\<bar>x\<bar> * 2 ^ ?E < 2 ^ Suc (?E + 19)" .
  moreover have "52 \<le> ?E + 19" by (simp add: E)
  ultimately obtain j where j: "j \<le> ?E + 19 - 52" "ulp x = 2 ^ j / 2 ^ ?E"
    using ulp_upper by blast
  have r: "?E + 19 - 52 = ?E - 33" "33 \<le> ?E" by (simp_all add: E)
  let ?i = "?E - 33 - j"
  from j(1) r have s: "j + ?i = ?E - 33" by simp
  have "ulp x * 2 ^ ?i = 2 ^ (j + ?i) / 2 ^ ?E" by (simp add: j(2) power_add)
  also have "\<dots> = 2 ^ (?E - 33) / 2 ^ ?E" by (simp only: s)
  also have "\<dots> = 1 / 2 ^ 33" using r(2) by (rule power_quotient)
  finally show ?thesis by blast
qed


lemma ulp_binade:
  assumes "e \<le> 52" and "2 ^ e \<le> x" and "x < 2 ^ Suc e"
  shows "ulp x = 1 / 2 ^ (52 - e)"
proof -
  let ?E = denormal_exponent
  have E: "?E = 1074" by (simp add: denormal_exponent_def)
  have "(0::real) < 2 ^ e" by simp
  with assms(2) have a: "\<bar>x\<bar> = x" by linarith
  have "2 ^ (?E + e) = 2 ^ e * (2::real) ^ ?E" by (simp add: power_add)
  also have "\<dots> \<le> \<bar>x\<bar> * 2 ^ ?E" using assms(2) by (simp add: a)
  finally have lo: "2 ^ (?E + e) \<le> \<bar>x\<bar> * 2 ^ ?E" .
  have "\<bar>x\<bar> * 2 ^ ?E < 2 ^ Suc e * 2 ^ ?E" using assms(3) by (simp add: a)
  also have "\<dots> = 2 ^ Suc (?E + e)" by (simp add: power_add)
  finally have hi: "\<bar>x\<bar> * 2 ^ ?E < 2 ^ Suc (?E + e)" .
  have "52 \<le> ?E + e" by (simp add: E)
  from this lo hi have "ulp x = 2 ^ (?E + e - 52) / 2 ^ ?E" by (rule ulp_normal)
  also have "?E + e - 52 = ?E - (52 - e)" using assms(1) by (simp add: E)
  also have "2 ^ (?E - (52 - e)) / 2 ^ ?E = (1::real) / 2 ^ (52 - e)"
    by (rule power_quotient) (simp add: E)
  finally show ?thesis .
qed

lemma ulp_binade_below_one:
  assumes "d \<le> 1021" and "1 / 2 ^ Suc d \<le> x" and "x < 1 / 2 ^ d"
  shows "ulp x = 1 / 2 ^ (53 + d)"
proof -
  let ?E = denormal_exponent
  have E: "?E = 1074" by (simp add: denormal_exponent_def)
  have "(0::real) < 1 / 2 ^ Suc d" by simp
  with assms(2) have a: "\<bar>x\<bar> = x" by linarith
  have d: "Suc d \<le> ?E" "d \<le> ?E" using assms(1) by (simp_all add: E)
  have "2 ^ (?E - Suc d) = (2::real) ^ ?E / 2 ^ Suc d" using d(1) by (simp add: power_diff)
  also have "\<dots> = 1 / 2 ^ Suc d * 2 ^ ?E" by simp
  also have "\<dots> \<le> \<bar>x\<bar> * 2 ^ ?E" unfolding a using assms(2) by (intro mult_right_mono) simp_all
  finally have lo: "2 ^ (?E - Suc d) \<le> \<bar>x\<bar> * 2 ^ ?E" .
  have "\<bar>x\<bar> * 2 ^ ?E < 1 / 2 ^ d * 2 ^ ?E" unfolding a using assms(3) by (intro mult_strict_right_mono) simp_all
  also have "\<dots> = (2::real) ^ ?E / 2 ^ d" by simp
  also have "\<dots> = 2 ^ (?E - d)" using d(2) by (simp add: power_diff)
  also have "?E - d = Suc (?E - Suc d)" using d(1) by simp
  finally have hi: "\<bar>x\<bar> * 2 ^ ?E < 2 ^ Suc (?E - Suc d)" .
  have "52 \<le> ?E - Suc d" using assms(1) by (simp add: E)
  from this lo hi have "ulp x = 2 ^ (?E - Suc d - 52) / 2 ^ ?E" by (rule ulp_normal)
  also have "?E - Suc d - 52 = ?E - (53 + d)" by simp
  also have "2 ^ (?E - (53 + d)) / 2 ^ ?E = (1::real) / 2 ^ (53 + d)"
    using assms(1) by (intro power_quotient) (simp add: E)
  finally show ?thesis .
qed

lemma ulp_binade_19:
  assumes "2 ^ 19 \<le> x" and "x < 2 ^ 20"
  shows "ulp x = 1 / 2 ^ 33"
  using ulp_binade [of 19 x] assms by simp

lemma ulp_binade_half:
  assumes "1 / 2 \<le> x" and "x < 1"
  shows "ulp x = 1 / 2 ^ 53"
  using ulp_binade_below_one [of 0 x] assms by simp

lemma round_grid:
  assumes "g / ulp x = of_int i"
  shows "g \<le> x \<Longrightarrow> g \<le> binary64_round x"
    and "x \<le> g \<Longrightarrow> binary64_round x \<le> g"
    and "x < g + ulp x / 2 \<Longrightarrow> binary64_round x \<le> g"
proof -
  let ?u = "ulp x"
  have u: "0 < ?u" by (rule ulp_pos)
  from assms u have g: "g = of_int i * ?u" by (simp add: field_simps)
  {
    assume "g \<le> x"
    with u have "of_int i \<le> x / ?u" by (simp add: g field_simps)
    then have "i \<le> round_even (x / ?u)" by (rule round_even_ge)
    then have "(of_int i :: real) \<le> of_int (round_even (x / ?u))" by simp
    with u show "g \<le> binary64_round x" by (simp add: g binary64_round_def)
  }
  {
    assume "x \<le> g"
    with u have "x / ?u \<le> of_int i" by (simp add: g field_simps)
    then have "round_even (x / ?u) \<le> i" by (rule round_even_le)
    then have "(of_int (round_even (x / ?u)) :: real) \<le> of_int i" by simp
    with u show "binary64_round x \<le> g" by (simp add: g binary64_round_def)
  }
  {
    assume "x < g + ?u / 2"
    with u have "x / ?u < of_int i + 1 / 2" by (simp add: g field_simps)
    then have "round_even (x / ?u) \<le> i" by (rule round_even_below_half)
    then have "(of_int (round_even (x / ?u)) :: real) \<le> of_int i" by simp
    with u show "binary64_round x \<le> g" by (simp add: g binary64_round_def)
  }
qed

lemma on_grid:
  assumes "\<bar>x\<bar> < 2 ^ 20" and "g * 2 ^ 33 \<in> \<int>"
  shows "\<exists>i. g / ulp x = of_int i"
proof -
  from assms(1) obtain j where j: "ulp x * 2 ^ j = 1 / 2 ^ 33" using ulp_divides by blast
  from assms(2) obtain m where m: "g * 2 ^ 33 = of_int m" by (elim Ints_cases)
  have u: "0 < ulp x" by (rule ulp_pos)
  from j u have "1 / ulp x = 2 ^ 33 * 2 ^ j" by (simp add: field_simps)
  moreover have "g / ulp x = g * (1 / ulp x)" by simp
  ultimately have "g / ulp x = (g * 2 ^ 33) * 2 ^ j" by (simp only: mult.assoc)
  also have "\<dots> = of_int (m * 2 ^ j)" by (simp only: m of_int_mult of_int_power of_int_numeral)
  finally show ?thesis by blast
qed

lemma round_ge:
  "\<bar>x\<bar> < 2 ^ 20 \<Longrightarrow> g * 2 ^ 33 \<in> \<int> \<Longrightarrow> g \<le> x \<Longrightarrow> g \<le> binary64_round x"
  using on_grid round_grid(1) by blast

lemma round_le:
  "\<bar>x\<bar> < 2 ^ 20 \<Longrightarrow> g * 2 ^ 33 \<in> \<int> \<Longrightarrow> x \<le> g \<Longrightarrow> binary64_round x \<le> g"
  using on_grid round_grid(2) by blast

lemma round_exact:
  assumes "\<bar>x\<bar> < 2 ^ 20" and "x * 2 ^ 33 \<in> \<int>"
  shows "binary64_round x = x"
proof (rule antisym)
  show "binary64_round x \<le> x" using assms by (rule round_le) simp
  show "x \<le> binary64_round x" using assms by (rule round_ge) simp
qed

lemma binary64_below_one:
  assumes "is_binary64 r" and "r < 1"
  shows "r \<le> 1 - 1 / 2 ^ 53"
proof (cases "1 / 2 \<le> r")
  case False
  then show ?thesis by simp
next
  case True
  from True assms(2) have u: "ulp r = 1 / 2 ^ 53" by (rule ulp_binade_half)
  from assms(1) have "r = of_int (round_even (r / ulp r)) * ulp r"
    by (simp add: is_binary64_def binary64_round_def)
  then obtain i :: int where i: "r = of_int i / 2 ^ 53" by (simp add: u)
  with assms(2) have "(of_int i :: real) < of_int (2 ^ 53)" by (simp add: field_simps)
  then have "i < 2 ^ 53" by (simp only: of_int_less_iff)
  then have "i \<le> 2 ^ 53 - 1" by simp
  then have "(of_int i :: real) \<le> of_int (2 ^ 53 - 1)" by (simp only: of_int_le_iff)
  then show ?thesis by (simp add: i field_simps)
qed

lemma js_mult_bounds:
  assumes "is_binary64 r" and "0 \<le> r" and "r < 1"
  shows "0 \<le> js_mult r 900000" and "js_mult r 900000 \<le> 900000 - 1 / 2 ^ 33"
proof -
  let ?x = "r * 900000"
  from assms(2,3) have x: "0 \<le> ?x" "?x < 900000" by simp_all
  then have small: "\<bar>?x\<bar> < 2 ^ 20" by simp
  show "0 \<le> js_mult r 900000"
    unfolding js_mult_def using small by (rule round_ge) (simp_all add: x)
  show "js_mult r 900000 \<le> 900000 - 1 / 2 ^ 33"
  proof (cases "2 ^ 19 \<le> ?x")
    case False
    then have "?x \<le> 2 ^ 19" by simp
    have "(2::real) ^ 19 * 2 ^ 33 \<in> \<int>" by simp
    with small have "binary64_round ?x \<le> 2 ^ 19" using \<open>?x \<le> 2 ^ 19\<close> by (rule round_le)
    then show ?thesis by (simp add: js_mult_def)
  next
    case True
    from x(2) have "?x < 2 ^ 20" by simp
    with True have u: "ulp ?x = 1 / 2 ^ 33" by (rule ulp_binade_19)
    from small have "\<exists>i. (900000 - 1 / 2 ^ 33) / ulp ?x = of_int i"
      by (rule on_grid) simp
    then obtain i where i: "(900000 - 1 / 2 ^ 33) / ulp ?x = of_int i" by blast
    from assms(1,3) have "r \<le> 1 - 1 / 2 ^ 53" by (rule binary64_below_one)
    then have "?x < 900000 - 1 / 2 ^ 33 + ulp ?x / 2" by (simp add: u)
    with i show ?thesis unfolding js_mult_def by (rule round_grid(3))
  qed
qed

lemma js_add_bounds:
  assumes "0 \<le> y" and "y \<le> 900000 - 1 / 2 ^ 33"
  shows "100000 \<le> js_add 100000 y" and "js_add 100000 y \<le> 1000000 - 1 / 2 ^ 33"
proof -
  from assms have small: "\<bar>100000 + y\<bar> < 2 ^ 20" by simp
  show "100000 \<le> js_add 100000 y"
    unfolding js_add_def using small by (rule round_ge) (simp_all add: assms)
  show "js_add 100000 y \<le> 1000000 - 1 / 2 ^ 33"
    unfolding js_add_def using small by (rule round_le) (use assms in simp_all)
qed


subsection \<open>The generator\<close>

lemma otp_number_range:
  assumes "is_binary64 r" and "0 \<le> r" and "r < 1"
  shows "100000 \<le> otp_number r \<and> otp_number r \<le> 999999"
proof -
  note m = js_mult_bounds [OF assms]
  note a = js_add_bounds [OF m]
  from a(1) have "100000 \<le> otp_number r" by (simp add: otp_number_def le_floor_iff)
  moreover from a(2) have "js_add 100000 (js_mult r 900000) < 1000000" by simp
  then have "otp_number r < 1000000" by (simp add: otp_number_def floor_less_iff)
  ultimately show ?thesis by simp
qed



lemma is_binary64_grid: "\<bar>x\<bar> < 2 ^ 20 \<Longrightarrow> x * 2 ^ 33 \<in> \<int> \<Longrightarrow> is_binary64 x"
  unfolding is_binary64_def by (rule round_exact)

lemma otp_number_exact:
  assumes "0 \<le> r" and "r < 1" and "r * 900000 * 2 ^ 33 \<in> \<int>"
  shows "otp_number r = \<lfloor>100000 + r * 900000\<rfloor>"
proof -
  from assms(1,2) have x: "0 \<le> r * 900000" "r * 900000 < 900000" by simp_all
  then have "\<bar>r * 900000\<bar> < 2 ^ 20" by simp
  then have m: "js_mult r 900000 = r * 900000"
    unfolding js_mult_def using assms(3) by (rule round_exact)
  from x have s: "\<bar>100000 + r * 900000\<bar> < 2 ^ 20" by simp
  have "(100000 + r * 900000) * 2 ^ 33 = of_int (100000 * 2 ^ 33) + r * 900000 * 2 ^ 33"
    by (simp add: algebra_simps)
  also have "\<dots> \<in> \<int>" using assms(3) by (intro Ints_add) simp_all
  finally have "(100000 + r * 900000) * 2 ^ 33 \<in> \<int>" .
  with s have "js_add 100000 (r * 900000) = 100000 + r * 900000"
    unfolding js_add_def by (rule round_exact)
  then show ?thesis by (simp add: otp_number_def m)
qed

lemma otp_number_values:
  "otp_number 0 = 100000" "otp_number (1 / 2) = 550000" "otp_number (1 / 2097152) = 100000"
  by (simp_all add: otp_number_exact)

lemma is_binary64_values: "is_binary64 0" "is_binary64 (1 / 2)" "is_binary64 (1 / 2097152)"
  by (simp_all add: is_binary64_grid)


lemma generateOTP_nonempty: "generateOTP r \<noteq> []"
  by (simp add: generateOTP_def toString_nonempty)

lemma generateOTP_no_leading_zero:
  "is_binary64 rnd \<Longrightarrow> 0 \<le> rnd \<Longrightarrow> rnd < 1 \<Longrightarrow> hd (generateOTP rnd) \<noteq> CHR ''0''"
  using otp_number_range [of rnd] by (simp add: generateOTP_def toString_no_leading_zero)

lemma generateOTP_half: "generateOTP (1 / 2) = ''550000''"
  by (simp add: generateOTP_def otp_number_values toString_550000)




subsection \<open>The handlers, case by case\<close>

lemma valid_phone_nonempty: "valid_phone phone \<Longrightarrow> phone \<noteq> []"
  by (auto simp add: valid_phone_def)

lemma send_otp_storage:
  assumes "valid_phone phone"
  shows "snd (send_otp env now rnd post store (Some phone))
       = AList.update phone \<lparr>otp = generateOTP rnd, expiresAt = now + 300000\<rparr> store"
  using assms valid_phone_nonempty [OF assms]
  by (simp add: send_otp_def falsy_def Let_def split: sms_outcome.split)




lemma verify_otp_match:
  "phone \<noteq> [] \<Longrightarrow> submitted \<noteq> [] \<Longrightarrow> map_of store phone = Some d \<Longrightarrow> now \<le> expiresAt d \<Longrightarrow>
     otp d = submitted \<Longrightarrow>
     verify_otp now store (Some phone) (Some submitted) = (verified_response, AList.delete phone store)"
  by (simp add: verify_otp_def falsy_def)


lemma responses_distinct:
  "success verified_response" "\<not> success expired_response" "\<not> success mismatch_response"
  "\<not> success not_found_response" "\<not> success required_response"
  by (simp_all add: verified_response_def expired_response_def mismatch_response_def
      not_found_response_def required_response_def failure_def)

lemma send_otp_debug_eq:
  "debug (fst (send_otp env now rnd post store phone_field))
     = (if \<not> falsy phone_field \<and> valid_phone (the phone_field)
           \<and> NODE_ENV env \<noteq> Some ''production''
        then Some (generateOTP rnd) else None)"
  by (simp add: send_otp_def Let_def failure_def sent_def split: sms_outcome.split)

lemma send_otp_production:
  assumes "NODE_ENV env = Some ''production''" and "valid_phone phone"
  shows "fst (send_otp env now rnd post store (Some phone))
       = (case post (provider_request (FAST2SMS_API_KEY env) phone (generateOTP rnd)) of
            Resolved return_true data \<Rightarrow>
              if return_true then sent ''OTP sent successfully'' None
              else failure 500 ''Failed to send OTP via SMS Provider'' (Some data)
          | Rejected response_data err_message \<Rightarrow>
              failure 500 ''Failed to send OTP via SMS service''
                (Some (error_detail response_data err_message)))"
  using assms valid_phone_nonempty [OF assms(2)]
  by (simp add: send_otp_def falsy_def Let_def split: sms_outcome.split)

lemma send_otp_500:
  "status (fst (send_otp env now rnd post store phone_field)) = 500 \<Longrightarrow>
     NODE_ENV env = Some ''production''"
  by (simp add: send_otp_def Let_def failure_def sent_def split: if_splits sms_outcome.splits)

lemma verify_otp_success_iff:
  assumes "phone \<noteq> []" and "map_of store phone = Some d" and "t \<le> expiresAt d"
    and "otp d \<noteq> []"
  shows "success (fst (verify_otp t store (Some phone) (Some c))) \<longleftrightarrow> c = otp d"
proof (cases "c = []")
  case True
  with assms(4) show ?thesis by (simp add: verify_otp_def falsy_def responses_distinct)
next
  case False
  with assms show ?thesis
    by (simp add: verify_otp_def falsy_def responses_distinct)
qed

lemma verify_otp_other_code:
  assumes "map_of store phone = Some d" and "c \<noteq> otp d"
  shows "\<not> success (fst (verify_otp t store (Some phone) (Some c)))"
  using assms by (simp add: verify_otp_def responses_distinct)

lemma update_single_entry:
  "distinct (map fst al) \<Longrightarrow> length (filter (\<lambda>e. fst e = k) (AList.update k v al)) = 1"
proof (induction al)
  case Nil
  then show ?case by simp
next
  case (Cons x al)
  show ?case
  proof (cases "fst x = k")
    case True
    with Cons.prems have "k \<notin> fst ` set al" by simp
    then have "filter (\<lambda>e. fst e = k) al = []" by (auto simp add: filter_empty_conv)
    with True show ?thesis by simp
  next
    case False
    with Cons show ?thesis by simp
  qed
qed


lemma map_of_update_same: "map_of (AList.update k v al) k = Some v"
  by (simp add: AList.update_conv')

text \<open>A phone number that passes the validation.\<close>

lemma valid_phone_example: "valid_phone ''9876543210''"
  by (simp add: valid_phone_def is_digit_def)







subsection \<open>The cleanup\<close>

lemma cleanup_loop_filter:
  "cleanup_loop now xs store
     = filter (\<lambda>e. \<not> (\<exists>d. (fst e, d) \<in> set xs \<and> now > expiresAt d)) store"
proof (induction xs arbitrary: store)
  case Nil
  then show ?case by simp
next
  case (Cons x xs)
  obtain phone data where x: "x = (phone, data)" by (cases x)
  show ?case
  proof (cases "now > expiresAt data")
    case True
    have "cleanup_loop now (x # xs) store = cleanup_loop now xs (AList.delete phone store)"
      using True by (simp add: x)
    also have "\<dots> = filter (\<lambda>e. \<not> (\<exists>d. (fst e, d) \<in> set xs \<and> now > expiresAt d))
        (filter (\<lambda>e. fst e \<noteq> phone) store)"
      by (simp add: Cons.IH AList.delete_eq case_prod_unfold eq_commute)
    also have "\<dots> = filter (\<lambda>e. \<not> (\<exists>d. (fst e, d) \<in> set (x # xs) \<and> now > expiresAt d)) store"
      using True by (auto simp add: x intro: filter_cong)
    finally show ?thesis .
  next
    case False
    have "cleanup_loop now (x # xs) store = cleanup_loop now xs store"
      using False by (simp add: x)
    also have "\<dots> = filter (\<lambda>e. \<not> (\<exists>d. (fst e, d) \<in> set (x # xs) \<and> now > expiresAt d)) store"
      using False by (auto simp add: Cons.IH x intro: filter_cong)
    finally show ?thesis .
  qed
qed

lemma cleanup_filter:
  assumes "distinct (map fst store)"
  shows "cleanup now store = filter (\<lambda>(phone, data). \<not> now > expiresAt data) store"
proof -
  have "(\<exists>d. (fst e, d) \<in> set store \<and> now > expiresAt d) \<longleftrightarrow> now > expiresAt (snd e)"
    if "e \<in> set store" for e
  proof
    assume "\<exists>d. (fst e, d) \<in> set store \<and> now > expiresAt d"
    then obtain d where d: "(fst e, d) \<in> set store" "now > expiresAt d" by blast
    from that have "(fst e, snd e) \<in> set store" by simp
    with assms d(1) have "d = snd e" by (rule eq_key_imp_eq_value)
    with d(2) show "now > expiresAt (snd e)" by simp
  next
    assume "now > expiresAt (snd e)"
    with that show "\<exists>d. (fst e, d) \<in> set store \<and> now > expiresAt d"
      by (intro exI [of _ "snd e"]) simp
  qed
  then show ?thesis
    unfolding cleanup_def cleanup_loop_filter
    by (intro filter_cong) (auto simp add: case_prod_unfold)
qed

lemma map_of_filter_values:
  "distinct (map fst xs) \<Longrightarrow>
     map_of (filter (\<lambda>(k, v). Q v) xs) k
       = (case map_of xs k of None \<Rightarrow> None | Some v \<Rightarrow> if Q v then Some v else None)"
proof (induction xs)
  case Nil
  then show ?case by simp
next
  case (Cons x xs)
  obtain k' v' where x: "x = (k', v')" by (cases x)
  from Cons.prems have notin: "k' \<notin> fst ` set xs" and dist: "distinct (map fst xs)"
    by (simp_all add: x)
  from notin have none: "map_of xs k' = None" by (simp add: map_of_eq_None_iff)
  show ?case
  proof (cases "k = k'")
    case True
    with none Cons.IH [OF dist] show ?thesis by (simp add: x)
  next
    case False
    with Cons.IH [OF dist] show ?thesis by (simp add: x)
  qed
qed

text \<open>
  C8. On a storage with one entry per phone (what a \<^verbatim>\<open>Map\<close> is), one run of the cleanup
  at time \<open>now\<close> removes exactly the entries with \<open>now > expiresAt\<close> and keeps every other
  entry, unchanged and in order; afterwards no entry has \<open>expiresAt < now\<close>. It reads
  nothing but the clock and the storage. The period handed to \<^verbatim>\<open>setInterval\<close> is 60000
  milliseconds.
\<close>

theorem cleanup_evicts_expired:
  assumes "distinct (map fst store)"
  shows "cleanup now store = filter (\<lambda>(phone, data). \<not> now > expiresAt data) store
       \<and> map_of (cleanup now store) phone
           = (case map_of store phone of None \<Rightarrow> None
              | Some data \<Rightarrow> if now > expiresAt data then None else Some data)
       \<and> (\<forall>(phone, data) \<in> set (cleanup now store). \<not> expiresAt data < now)
       \<and> distinct (map fst (cleanup now store))
       \<and> cleanup_interval = 60000"
proof -
  have f: "cleanup now store = filter (\<lambda>(phone, data). \<not> now > expiresAt data) store"
    using assms by (rule cleanup_filter)
  have m: "map_of (cleanup now store) phone
           = (case map_of store phone of None \<Rightarrow> None
              | Some data \<Rightarrow> if now > expiresAt data then None else Some data)"
    unfolding f using map_of_filter_values [OF assms, of "\<lambda>data. \<not> now > expiresAt data" phone]
    by (simp split: option.split)
  have a: "\<forall>(phone, data) \<in> set (cleanup now store). \<not> expiresAt data < now"
    unfolding f by auto
  have d: "distinct (map fst (cleanup now store))"
    unfolding f using assms by (simp add: distinct_map_filter)
  have i: "cleanup_interval = 60000" by (simp add: cleanup_interval_def)
  from f m a d i show ?thesis by blast
qed

theorem cleanup_evicts_expired_witness:
  "distinct (map fst [(''9876543210'', \<lparr>otp = ''483920'', expiresAt = 300000\<rparr>),
                      (''9123456780'', \<lparr>otp = ''761204'', expiresAt = 360000\<rparr>)])
   \<and> cleanup 330000 [(''9876543210'', \<lparr>otp = ''483920'', expiresAt = 300000\<rparr>),
                      (''9123456780'', \<lparr>otp = ''761204'', expiresAt = 360000\<rparr>)]
       = [(''9123456780'', \<lparr>otp = ''761204'', expiresAt = 360000\<rparr>)]"
proof -
  have h: "distinct (map fst [(''9876543210'', \<lparr>otp = ''483920'', expiresAt = 300000\<rparr>),
                      (''9123456780'', \<lparr>otp = ''761204'', expiresAt = 360000\<rparr>)])" by simp
  from cleanup_evicts_expired [OF h, of 330000] h show ?thesis by simp
qed



subsection \<open>Delivery, re-issue and what the caller sees\<close>

text \<open>
  C3. When \<^verbatim>\<open>NODE_ENV\<close> is \<^verbatim>\<open>production\<close>, no response of \<^verbatim>\<open>send-otp\<close> carries
  \<^verbatim>\<open>debug.otp\<close>, a success response in particular. A response that carries it was sent
  outside production, and carries the generated code; outside production every response
  past the validation does (simulated delivery, delivery, and both fallbacks after a
  failed delivery).
\<close>

theorem production_hides_code:
  fixes env now rnd post store phone_field
  defines "reply \<equiv> fst (send_otp env now rnd post store phone_field)"
  shows "(NODE_ENV env = Some ''production'' \<longrightarrow> debug reply = None)
       \<and> (\<forall>c. debug reply = Some c \<longrightarrow>
             c = generateOTP rnd \<and> NODE_ENV env \<noteq> Some ''production'')
       \<and> debug reply
           = (if \<not> falsy phone_field \<and> valid_phone (the phone_field)
                 \<and> NODE_ENV env \<noteq> Some ''production''
              then Some (generateOTP rnd) else None)"
  unfolding reply_def send_otp_debug_eq by simp

theorem production_hides_code_witness:
  "NODE_ENV \<lparr>FAST2SMS_API_KEY = Some ''key'', NODE_ENV = Some ''production''\<rparr> = Some ''production''
   \<and> success (fst (send_otp \<lparr>FAST2SMS_API_KEY = Some ''key'', NODE_ENV = Some ''production''\<rparr>
         0 (1 / 2) (\<lambda>_. Resolved True ''ok'') [] (Some ''9876543210'')))
   \<and> debug (fst (send_otp \<lparr>FAST2SMS_API_KEY = Some ''key'', NODE_ENV = Some ''production''\<rparr>
         0 (1 / 2) (\<lambda>_. Resolved True ''ok'') [] (Some ''9876543210''))) = None
   \<and> debug (fst (send_otp \<lparr>FAST2SMS_API_KEY = Some ''key'', NODE_ENV = Some ''development''\<rparr>
         0 (1 / 2) (\<lambda>_. Resolved True ''ok'') [] (Some ''9876543210''))) = Some ''550000''"
proof -
  let ?env = "\<lparr>FAST2SMS_API_KEY = Some ''key'', NODE_ENV = Some ''production''\<rparr>"
  let ?dev = "\<lparr>FAST2SMS_API_KEY = Some ''key'', NODE_ENV = Some ''development''\<rparr>"
  let ?post = "\<lambda>_::sms_request. Resolved True ''ok''"
  have e: "NODE_ENV ?env = Some ''production''" by simp
  have s: "success (fst (send_otp ?env 0 (1 / 2) ?post [] (Some ''9876543210'')))"
    using valid_phone_example by (simp add: send_otp_def falsy_def sent_def Let_def)
  from production_hides_code [of ?env 0 "1 / 2" ?post "[]" "Some ''9876543210''"] e
  have p: "debug (fst (send_otp ?env 0 (1 / 2) ?post [] (Some ''9876543210''))) = None"
    by blast
  have g: "generateOTP (1 / 2) = ''550000''"
    by (rule generateOTP_half)
  from production_hides_code [of ?dev 0 "1 / 2" ?post "[]" "Some ''9876543210''"]
  have "debug (fst (send_otp ?dev 0 (1 / 2) ?post [] (Some ''9876543210'')))
      = (if \<not> falsy (Some ''9876543210'') \<and> valid_phone (the (Some ''9876543210''))
            \<and> NODE_ENV ?dev \<noteq> Some ''production''
         then Some (generateOTP (1 / 2)) else None)"
    by blast
  then have d: "debug (fst (send_otp ?dev 0 (1 / 2) ?post [] (Some ''9876543210''))) = Some ''550000''"
    using valid_phone_example by (simp add: falsy_def g)
  from e s p d show ?thesis by blast
qed

text \<open>
  C5 (as amended). For a phone of ten digits, \<^verbatim>\<open>send-otp\<close> replaces the entry of the phone
  by the new code with expiry \<open>now + 300000\<close>; the entries of other phones stay; a storage
  with one entry per phone keeps one entry per phone, and has exactly one for this phone;
  afterwards \<^verbatim>\<open>verify-otp\<close> fails, at any time, for every code other than the new one, so
  for the previous code whenever the new code differs from it.
\<close>

theorem reissue_replaces:
  fixes env now rnd post store phone
  defines "store' \<equiv> snd (send_otp env now rnd post store (Some phone))"
  assumes "valid_phone phone"
  shows "store' = AList.update phone \<lparr>otp = generateOTP rnd, expiresAt = now + 300000\<rparr> store
       \<and> map_of store' phone = Some \<lparr>otp = generateOTP rnd, expiresAt = now + 300000\<rparr>
       \<and> (\<forall>other. other \<noteq> phone \<longrightarrow> map_of store' other = map_of store other)
       \<and> (distinct (map fst store) \<longrightarrow>
            distinct (map fst store') \<and> length (filter (\<lambda>e. fst e = phone) store') = 1)
       \<and> (\<forall>previous t. previous \<noteq> generateOTP rnd \<longrightarrow>
            \<not> success (fst (verify_otp t store' (Some phone) (Some previous))))"
proof -
  let ?d = "\<lparr>otp = generateOTP rnd, expiresAt = now + 300000\<rparr>"
  have s: "store' = AList.update phone ?d store"
    unfolding store'_def by (rule send_otp_storage [OF assms(2)])
  have m: "map_of store' phone = Some ?d" by (simp add: s map_of_update_same)
  have o: "map_of store' other = map_of store other" if "other \<noteq> phone" for other
    using that by (simp add: s AList.update_conv')
  have one: "distinct (map fst store') \<and> length (filter (\<lambda>e. fst e = phone) store') = 1"
    if "distinct (map fst store)"
  proof -
    from that have "distinct (map fst store')" by (simp add: s AList.distinct_update)
    moreover from that have "length (filter (\<lambda>e. fst e = phone) store') = 1"
      unfolding s by (rule update_single_entry)
    ultimately show ?thesis by simp
  qed
  have old: "\<not> success (fst (verify_otp t store' (Some phone) (Some previous)))"
    if "previous \<noteq> generateOTP rnd" for previous t
    using m by (rule verify_otp_other_code) (simp add: that)
  from s m o one old show ?thesis by blast
qed

theorem reissue_replaces_witness:
  "map_of (snd (send_otp \<lparr>FAST2SMS_API_KEY = None, NODE_ENV = None\<rparr> 1000 (1 / 2)
       (\<lambda>_. Rejected None ''unreachable'')
       [(''9876543210'', \<lparr>otp = ''100000'', expiresAt = 300000\<rparr>)] (Some ''9876543210'')))
     ''9876543210'' = Some \<lparr>otp = ''550000'', expiresAt = 301000\<rparr>
   \<and> \<not> success (fst (verify_otp 2000
       (snd (send_otp \<lparr>FAST2SMS_API_KEY = None, NODE_ENV = None\<rparr> 1000 (1 / 2)
          (\<lambda>_. Rejected None ''unreachable'')
          [(''9876543210'', \<lparr>otp = ''100000'', expiresAt = 300000\<rparr>)] (Some ''9876543210'')))
       (Some ''9876543210'') (Some ''100000'')))"
proof -
  let ?env = "\<lparr>FAST2SMS_API_KEY = None, NODE_ENV = None\<rparr>"
  let ?post = "\<lambda>_::sms_request. Rejected None ''unreachable''"
  let ?s = "[(''9876543210'', \<lparr>otp = ''100000'', expiresAt = 300000\<rparr>)]"
  have g: "generateOTP (1 / 2) = ''550000''"
    by (rule generateOTP_half)
  have n: "''100000'' \<noteq> generateOTP (1 / 2)" by (simp add: g)
  note inst = reissue_replaces [OF valid_phone_example, of ?env 1000 "1 / 2" ?post ?s]
  from inst have "map_of (snd (send_otp ?env 1000 (1 / 2) ?post ?s (Some ''9876543210'')))
      ''9876543210'' = Some \<lparr>otp = generateOTP (1 / 2), expiresAt = 1000 + 300000\<rparr>"
    by blast
  then have a: "map_of (snd (send_otp ?env 1000 (1 / 2) ?post ?s (Some ''9876543210'')))
      ''9876543210'' = Some \<lparr>otp = ''550000'', expiresAt = 301000\<rparr>"
    by (simp add: g)
  from inst n have b: "\<not> success (fst (verify_otp 2000
       (snd (send_otp ?env 1000 (1 / 2) ?post ?s (Some ''9876543210'')))
       (Some ''9876543210'') (Some ''100000'')))"
    by blast
  from a b show ?thesis by blast
qed

text \<open>
  C5 as stated says that after a second \<^verbatim>\<open>send-otp\<close> the previous code fails. The
  generator does not look at the storage: two draws in the same interval give the same
  code, and then the previous code is the pending one and verifies.
\<close>

theorem reissue_same_code_counterexample:
  "let env = \<lparr>FAST2SMS_API_KEY = None, NODE_ENV = None\<rparr>;
       post = (\<lambda>_. Rejected None ''unreachable'');
       phone = ''9876543210'';
       issued = snd (send_otp env 0 0 post [] (Some phone));
       reissued = snd (send_otp env 1000 (1 / 2097152) post issued (Some phone))
   in map_of issued phone = Some \<lparr>otp = ''100000'', expiresAt = 300000\<rparr>
    \<and> map_of reissued phone = Some \<lparr>otp = ''100000'', expiresAt = 301000\<rparr>
    \<and> verify_otp 2000 reissued (Some phone) (Some ''100000'') = (verified_response, [])"
proof -
  have g: "generateOTP 0 = ''100000''" "generateOTP (1 / 2097152) = ''100000''"
    by (simp_all add: generateOTP_def otp_number_values toString_100000)
  show ?thesis
    by (simp add: Let_def send_otp_storage [OF valid_phone_example] g verify_otp_def falsy_def)
qed

text \<open>
  C7. In production, for a phone of ten digits, the response depends on the transport
  alone. When the provider answers without \<^verbatim>\<open>return === true\<close>, it is 500 with the
  provider's answer in \<^verbatim>\<open>error\<close>. When the call rejects with a response body, it is 500
  with that body in \<^verbatim>\<open>error\<close>; when it rejects with no body (or an empty one), it is 500
  with the rejection's message in \<^verbatim>\<open>error\<close>. Success is reported only when the provider
  answered with \<^verbatim>\<open>return === true\<close>; every other response is a 500 that carries an
  \<^verbatim>\<open>error\<close>.
\<close>

theorem production_transport_failure:
  fixes env now rnd post store phone
  defines "outcome \<equiv> post (provider_request (FAST2SMS_API_KEY env) phone (generateOTP rnd))"
  defines "reply \<equiv> fst (send_otp env now rnd post store (Some phone))"
  assumes "NODE_ENV env = Some ''production''" and "valid_phone phone"
  shows "(\<forall>data. outcome = Resolved False data \<longrightarrow>
            reply = \<lparr>status = 500, success = False,
                     message = ''Failed to send OTP via SMS Provider'',
                     debug = None, error = Some data, verified = None\<rparr>)
       \<and> (\<forall>body err_message. outcome = Rejected (Some body) err_message \<and> body \<noteq> [] \<longrightarrow>
            reply = \<lparr>status = 500, success = False,
                     message = ''Failed to send OTP via SMS service'',
                     debug = None, error = Some body, verified = None\<rparr>)
       \<and> (\<forall>err_message. outcome = Rejected None err_message
               \<or> outcome = Rejected (Some []) err_message \<longrightarrow>
            reply = \<lparr>status = 500, success = False,
                     message = ''Failed to send OTP via SMS service'',
                     debug = None, error = Some err_message, verified = None\<rparr>)
       \<and> (success reply \<longleftrightarrow> (\<exists>data. outcome = Resolved True data))
       \<and> (\<not> success reply \<longrightarrow> status reply = 500 \<and> error reply \<noteq> None)"
  unfolding reply_def outcome_def send_otp_production [OF assms(3,4)]
  by (auto simp add: failure_def sent_def error_detail_def split: sms_outcome.split)

theorem production_transport_failure_witness:
  "fst (send_otp \<lparr>FAST2SMS_API_KEY = Some ''key'', NODE_ENV = Some ''production''\<rparr>
         0 (1 / 2) (\<lambda>_. Resolved False ''Insufficient balance'') [] (Some ''9876543210''))
     = \<lparr>status = 500, success = False, message = ''Failed to send OTP via SMS Provider'',
        debug = None, error = Some ''Insufficient balance'', verified = None\<rparr>
   \<and> fst (send_otp \<lparr>FAST2SMS_API_KEY = Some ''key'', NODE_ENV = Some ''production''\<rparr>
         0 (1 / 2) (\<lambda>_. Rejected (Some ''Invalid Authentication'') ''Request failed with status code 401'')
         [] (Some ''9876543210''))
     = \<lparr>status = 500, success = False, message = ''Failed to send OTP via SMS service'',
        debug = None, error = Some ''Invalid Authentication'', verified = None\<rparr>
   \<and> fst (send_otp \<lparr>FAST2SMS_API_KEY = Some ''key'', NODE_ENV = Some ''production''\<rparr>
         0 (1 / 2) (\<lambda>_. Rejected None ''timeout of 5000ms exceeded'') [] (Some ''9876543210''))
     = \<lparr>status = 500, success = False, message = ''Failed to send OTP via SMS service'',
        debug = None, error = Some ''timeout of 5000ms exceeded'', verified = None\<rparr>"
proof -
  let ?env = "\<lparr>FAST2SMS_API_KEY = Some ''key'', NODE_ENV = Some ''production''\<rparr>"
  have e: "NODE_ENV ?env = Some ''production''" by simp
  from production_transport_failure [OF e valid_phone_example,
      of "\<lambda>_. Resolved False ''Insufficient balance''" "1 / 2" 0 "[]"]
  have a: "fst (send_otp ?env 0 (1 / 2) (\<lambda>_. Resolved False ''Insufficient balance'') []
             (Some ''9876543210''))
     = \<lparr>status = 500, success = False, message = ''Failed to send OTP via SMS Provider'',
        debug = None, error = Some ''Insufficient balance'', verified = None\<rparr>"
    by blast
  have n: "''Invalid Authentication'' \<noteq> []" by simp
  from production_transport_failure [OF e valid_phone_example,
      of "\<lambda>_. Rejected (Some ''Invalid Authentication'') ''Request failed with status code 401''"
         "1 / 2" 0 "[]"] n
  have b: "fst (send_otp ?env 0 (1 / 2)
             (\<lambda>_. Rejected (Some ''Invalid Authentication'') ''Request failed with status code 401'')
             [] (Some ''9876543210''))
     = \<lparr>status = 500, success = False, message = ''Failed to send OTP via SMS service'',
        debug = None, error = Some ''Invalid Authentication'', verified = None\<rparr>"
    by blast
  from production_transport_failure [OF e valid_phone_example,
      of "\<lambda>_. Rejected None ''timeout of 5000ms exceeded''" "1 / 2" 0 "[]"]
  have c: "fst (send_otp ?env 0 (1 / 2) (\<lambda>_. Rejected None ''timeout of 5000ms exceeded'') []
             (Some ''9876543210''))
     = \<lparr>status = 500, success = False, message = ''Failed to send OTP via SMS service'',
        debug = None, error = Some ''timeout of 5000ms exceeded'', verified = None\<rparr>"
    by blast
  from a b c show ?thesis by blast
qed

text \<open>
  C10 (as amended). When \<^verbatim>\<open>send-otp\<close> answers 500 for a phone of ten digits (which
  happens in production only), the storage it leaves holds the new code for the phone with
  expiry \<open>now + 300000\<close> in place of whatever entry the phone had; a \<^verbatim>\<open>verify-otp\<close> with
  the new code up to the expiry succeeds, and the new code is the only one that does: a
  prior code that differs from the new one fails, at any time. The storage left behind is
  the same for every behaviour of the transport: it is written before the call and not
  touched after it.
\<close>

theorem failed_delivery_keeps_code:
  fixes env now rnd post store phone t
  defines "issued \<equiv> send_otp env now rnd post store (Some phone)"
  defines "code \<equiv> generateOTP rnd"
  assumes "valid_phone phone" and "status (fst issued) = 500" and "t \<le> now + 300000"
  shows "NODE_ENV env = Some ''production''
       \<and> \<not> success (fst issued)
       \<and> snd issued = AList.update phone \<lparr>otp = code, expiresAt = now + 300000\<rparr> store
       \<and> map_of (snd issued) phone = Some \<lparr>otp = code, expiresAt = now + 300000\<rparr>
       \<and> verify_otp t (snd issued) (Some phone) (Some code)
           = (verified_response, AList.delete phone (snd issued))
       \<and> (\<forall>c. success (fst (verify_otp t (snd issued) (Some phone) (Some c))) \<longleftrightarrow> c = code)
       \<and> (\<forall>prior t'. prior \<noteq> code \<longrightarrow>
             \<not> success (fst (verify_otp t' (snd issued) (Some phone) (Some prior))))
       \<and> (\<forall>post'. snd (send_otp env now rnd post' store (Some phone)) = snd issued)"
proof -
  let ?d = "\<lparr>otp = code, expiresAt = now + 300000\<rparr>"
  have p: "phone \<noteq> []" using assms(3) by (rule valid_phone_nonempty)
  have c: "code \<noteq> []" by (simp add: code_def generateOTP_nonempty)
  have prod: "NODE_ENV env = Some ''production''"
    using assms(4) unfolding issued_def by (rule send_otp_500)
  have st: "snd (send_otp env now rnd post' store (Some phone)) = AList.update phone ?d store"
    for post'
    unfolding code_def by (rule send_otp_storage [OF assms(3)])
  have s: "snd issued = AList.update phone ?d store" unfolding issued_def by (rule st)
  have m: "map_of (snd issued) phone = Some ?d" by (simp add: s map_of_update_same)
  have fail: "\<not> success (fst issued)"
    using assms(4) unfolding issued_def
    by (auto simp add: send_otp_def Let_def failure_def sent_def
        split: if_splits sms_outcome.splits)
  have v: "verify_otp t (snd issued) (Some phone) (Some code)
           = (verified_response, AList.delete phone (snd issued))"
    using p c m by (rule verify_otp_match) (simp_all add: assms(5))
  have only: "success (fst (verify_otp t (snd issued) (Some phone) (Some c'))) \<longleftrightarrow> c' = code"
    for c'
    using verify_otp_success_iff [OF p m, of t c'] c assms(5) by simp
  have other: "\<not> success (fst (verify_otp t' (snd issued) (Some phone) (Some prior)))"
    if "prior \<noteq> code" for prior t'
    using m by (rule verify_otp_other_code) (simp add: that)
  from prod fail s m v only other st show ?thesis by simp
qed

theorem failed_delivery_keeps_code_witness:
  "status (fst (send_otp \<lparr>FAST2SMS_API_KEY = Some ''key'', NODE_ENV = Some ''production''\<rparr>
       0 (1 / 2) (\<lambda>_. Rejected None ''timeout'')
       [(''9876543210'', \<lparr>otp = ''483920'', expiresAt = 100\<rparr>)] (Some ''9876543210''))) = 500
   \<and> verify_otp 20000
       (snd (send_otp \<lparr>FAST2SMS_API_KEY = Some ''key'', NODE_ENV = Some ''production''\<rparr>
          0 (1 / 2) (\<lambda>_. Rejected None ''timeout'')
          [(''9876543210'', \<lparr>otp = ''483920'', expiresAt = 100\<rparr>)] (Some ''9876543210'')))
       (Some ''9876543210'') (Some ''550000'') = (verified_response, [])
   \<and> \<not> success (fst (verify_otp 50
       (snd (send_otp \<lparr>FAST2SMS_API_KEY = Some ''key'', NODE_ENV = Some ''production''\<rparr>
          0 (1 / 2) (\<lambda>_. Rejected None ''timeout'')
          [(''9876543210'', \<lparr>otp = ''483920'', expiresAt = 100\<rparr>)] (Some ''9876543210'')))
       (Some ''9876543210'') (Some ''483920'')))"
proof -
  let ?env = "\<lparr>FAST2SMS_API_KEY = Some ''key'', NODE_ENV = Some ''production''\<rparr>"
  let ?post = "\<lambda>_::sms_request. Rejected None ''timeout''"
  let ?s = "[(''9876543210'', \<lparr>otp = ''483920'', expiresAt = 100\<rparr>)]"
  let ?issued = "send_otp ?env 0 (1 / 2) ?post ?s (Some ''9876543210'')"
  have e: "NODE_ENV ?env = Some ''production''" by simp
  have st: "status (fst ?issued) = 500"
    by (simp add: send_otp_production [OF e valid_phone_example] failure_def)
  have t: "(20000::int) \<le> 0 + 300000" by simp
  have g: "generateOTP (1 / 2) = ''550000''" by (rule generateOTP_half)
  have n: "''483920'' \<noteq> generateOTP (1 / 2)" by (simp add: g)
  note inst = failed_delivery_keeps_code [OF valid_phone_example st t]
  from inst have s: "snd ?issued
      = AList.update ''9876543210'' \<lparr>otp = generateOTP (1 / 2), expiresAt = 0 + 300000\<rparr> ?s"
    by blast
  from inst have "verify_otp 20000 (snd ?issued) (Some ''9876543210'') (Some (generateOTP (1 / 2)))
      = (verified_response, AList.delete ''9876543210'' (snd ?issued))"
    by blast
  then have v: "verify_otp 20000 (snd ?issued) (Some ''9876543210'') (Some ''550000'')
      = (verified_response, [])"
    unfolding g by (simp add: s)
  from inst n have o: "\<not> success (fst (verify_otp 50 (snd ?issued) (Some ''9876543210'')
      (Some ''483920'')))"
    by blast
  from st v o show ?thesis by blast
qed

text \<open>
  C10 as stated says that any prior code of the phone is invalidated by then. The generator
  does not look at the storage: when the draw gives the code the phone already had, the
  entry is replaced by one with the same code, and the prior code verifies.
\<close>

theorem failed_delivery_same_code_counterexample:
  "let env = \<lparr>FAST2SMS_API_KEY = Some ''key'', NODE_ENV = Some ''production''\<rparr>;
       post = (\<lambda>_. Rejected None ''timeout'');
       phone = ''9876543210'';
       store = [(phone, \<lparr>otp = ''100000'', expiresAt = 300000\<rparr>)];
       issued = send_otp env 1000 0 post store (Some phone)
   in map_of store phone = Some \<lparr>otp = ''100000'', expiresAt = 300000\<rparr>
    \<and> status (fst issued) = 500
    \<and> map_of (snd issued) phone = Some \<lparr>otp = ''100000'', expiresAt = 301000\<rparr>
    \<and> verify_otp 2000 (snd issued) (Some phone) (Some ''100000'') = (verified_response, [])"
proof -
  let ?env = "\<lparr>FAST2SMS_API_KEY = Some ''key'', NODE_ENV = Some ''production''\<rparr>"
  have e: "NODE_ENV ?env = Some ''production''" by simp
  have g: "generateOTP 0 = ''100000''"
    by (simp add: generateOTP_def otp_number_values toString_100000)
  show ?thesis
    by (simp add: Let_def send_otp_storage [OF valid_phone_example]
        send_otp_production [OF e valid_phone_example] failure_def g verify_otp_def falsy_def)
qed

end
